theory Spec2Isabelle
  imports Main "HOL-Library.Word"
begin

unbundle bit_operations_syntax

section \<open>JavaScript strings\<close>

text \<open>
  A JavaScript string is a sequence of 16-bit code units; \<open>length\<close>, \<open>slice\<close> and
  \<open>trim\<close> count code units, so the model is a list of \<open>16 word\<close>. \<open>js\<close> reads an
  ASCII literal; literals of the source beyond ASCII are written as their code units.
\<close>

type_synonym jsstring = "16 word list"

definition js :: "string \<Rightarrow> jsstring" where
  "js s = map of_char s"

text \<open>
  \<open>String.prototype.trim\<close> strips WhiteSpace and LineTerminator code points
  (ECMA-262, TrimString) from both ends.
\<close>

definition isWhiteSpace :: "16 word \<Rightarrow> bool" where
  "isWhiteSpace c \<longleftrightarrow> c \<in> set [0x0009, 0x000A, 0x000B, 0x000C, 0x000D, 0x0020, 0x00A0, 0x1680,
     0x2000, 0x2001, 0x2002, 0x2003, 0x2004, 0x2005, 0x2006, 0x2007, 0x2008, 0x2009, 0x200A,
     0x2028, 0x2029, 0x202F, 0x205F, 0x3000, 0xFEFF]"

definition trim :: "jsstring \<Rightarrow> jsstring" where
  "trim s = rev (dropWhile isWhiteSpace (rev (dropWhile isWhiteSpace s)))"

text \<open>\<open>a || b\<close> on strings: the empty string is the only falsy string.\<close>

definition or_string :: "jsstring \<Rightarrow> jsstring \<Rightarrow> jsstring" where
  "or_string a b = (if a = [] then b else a)"

text \<open>
  \<open>x || d\<close> where \<open>x\<close> is an integer-valued number or undefined (\<open>None\<close>): undefined
  and 0 are falsy.
\<close>

definition or_number :: "int option \<Rightarrow> int \<Rightarrow> int" where
  "or_number x d = (case x of None \<Rightarrow> d | Some n \<Rightarrow> if n = 0 then d else n)"

subsection \<open>encodeURIComponent\<close>

text \<open>
  The built-in as ECMA-262 defines it (abstract operation Encode with the unreserved
  set of \<open>encodeURIComponent\<close>): letters, digits and \<open>- _ . ! ~ * ' ( )\<close> are kept,
  every other code point is written as the percent-escaped octets of its UTF-8 form,
  and an unpaired surrogate throws URIError (\<open>None\<close>).
\<close>

definition uriUnescaped :: "16 word \<Rightarrow> bool" where
  "uriUnescaped c \<longleftrightarrow> (0x41 \<le> c \<and> c \<le> 0x5A) \<or> (0x61 \<le> c \<and> c \<le> 0x7A) \<or> (0x30 \<le> c \<and> c \<le> 0x39)
     \<or> c \<in> set [0x2D, 0x5F, 0x2E, 0x21, 0x7E, 0x2A, 0x27, 0x28, 0x29]"

definition isLeadSurrogate :: "16 word \<Rightarrow> bool" where
  "isLeadSurrogate c \<longleftrightarrow> 0xD800 \<le> c \<and> c \<le> 0xDBFF"

definition isTrailSurrogate :: "16 word \<Rightarrow> bool" where
  "isTrailSurrogate c \<longleftrightarrow> 0xDC00 \<le> c \<and> c \<le> 0xDFFF"

definition surrogatePair :: "16 word \<Rightarrow> 16 word \<Rightarrow> nat" where
  "surrogatePair lead trail = (unat lead - 0xD800) * 0x400 + (unat trail - 0xDC00) + 0x10000"

definition utf8 :: "nat \<Rightarrow> nat list" where
  "utf8 cp =
     (if cp < 0x80 then [cp]
      else if cp < 0x800 then [0xC0 + cp div 0x40, 0x80 + cp mod 0x40]
      else if cp < 0x10000 then
        [0xE0 + cp div 0x1000, 0x80 + (cp div 0x40) mod 0x40, 0x80 + cp mod 0x40]
      else
        [0xF0 + cp div 0x40000, 0x80 + (cp div 0x1000) mod 0x40,
         0x80 + (cp div 0x40) mod 0x40, 0x80 + cp mod 0x40])"

text \<open>An octet as \<open>%\<close> and two upper-case hexadecimal digits.\<close>

definition hexDigit :: "nat \<Rightarrow> 16 word" where
  "hexDigit n = js ''0123456789ABCDEF'' ! (n mod 16)"

definition percentOctet :: "nat \<Rightarrow> jsstring" where
  "percentOctet b = [0x25, hexDigit (b div 16), hexDigit (b mod 16)]"

definition escapeCodePoint :: "nat \<Rightarrow> jsstring" where
  "escapeCodePoint cp = concat (map percentOctet (utf8 cp))"

fun encodeURIComponent :: "jsstring \<Rightarrow> jsstring option" where
  "encodeURIComponent [] = Some []"
| "encodeURIComponent (c # cs) =
     (if uriUnescaped c then map_option (\<lambda>r. c # r) (encodeURIComponent cs)
      else if \<not> isLeadSurrogate c \<and> \<not> isTrailSurrogate c then
        map_option (\<lambda>r. escapeCodePoint (unat c) @ r) (encodeURIComponent cs)
      else if isTrailSurrogate c then None
      else (case cs of
              [] \<Rightarrow> None
            | d # ds \<Rightarrow>
                if isTrailSurrogate d then
                  map_option (\<lambda>r. escapeCodePoint (surrogatePair c d) @ r) (encodeURIComponent ds)
                else None))"

text \<open>\<open>String.prototype.isWellFormed\<close>: no unpaired surrogate code unit.\<close>

fun isWellFormed :: "jsstring \<Rightarrow> bool" where
  "isWellFormed [] = True"
| "isWellFormed (c # cs) =
     (if isTrailSurrogate c then False
      else if isLeadSurrogate c then
        (case cs of [] \<Rightarrow> False | d # ds \<Rightarrow> isTrailSurrogate d \<and> isWellFormed ds)
      else isWellFormed cs)"

section \<open>Data model\<close>

text \<open>
  \<open>interface Project\<close> of the dashboard page and the rows of \<open>user_credits\<close> from the
  \<open>Database\<close> type (the fields the page reads). The fields called \<open>id\<close> in the source
  carry a suffix, \<open>id\<close> being the identity function of HOL; the column \<open>credits\<close> of a
  row is \<open>row_credits\<close>, the name \<open>credits\<close> being kept for the page's state.
\<close>

record Project =
  id_project :: jsstring
  title :: jsstring
  thumbnail :: "jsstring option"
  updated_at :: jsstring

record user_credits_Row =
  user_id :: jsstring
  row_credits :: int

record User =
  id_user :: jsstring

text \<open>
  What a query of the store client resolves to: \<open>{ data, error }\<close>, with the error's
  \<open>message\<close> and \<open>code\<close>.
\<close>

record PostgrestError =
  message :: jsstring
  code :: jsstring

record 'a Response =
  data :: "'a option"
  error :: "PostgrestError option"

text \<open>
  The store is an external collaborator: the client handle is modelled by the answer it
  gives to each of the four queries the page builds.
  \<^item> \<open>select_projects\<close>: \<open>from('projects').select('*').order('updated_at', {ascending: false})\<close>
  \<^item> \<open>select_user_credits uid\<close>: \<open>from('user_credits').select('credits').eq('user_id', uid).single()\<close>
  \<^item> \<open>insert_user_credits uid n\<close>: \<open>from('user_credits').insert({user_id: uid, credits: n}).select().single()\<close>
  \<^item> \<open>insert_projects i t\<close>: \<open>from('projects').insert({id: i, title: t}).select().single()\<close>
\<close>

record SupabaseClient =
  select_projects :: "Project list Response"
  select_user_credits :: "jsstring \<Rightarrow> user_credits_Row Response"
  insert_user_credits :: "jsstring \<Rightarrow> int \<Rightarrow> user_credits_Row Response"
  insert_projects :: "jsstring \<Rightarrow> jsstring \<Rightarrow> Project Response"

text \<open>
  What the page takes from its runtime: the identifier \<open>uuidv4()\<close> returns at this call,
  and the message of the URIError the engine throws (engine-defined text).
\<close>

record Browser =
  uuidv4 :: jsstring
  URIError_message :: jsstring

text \<open>The \<open>useState\<close> cells of \<open>LovartDashboard\<close> that the two flows read or write.\<close>

record State =
  projects :: "Project list"
  isLoading :: bool
  credits :: "int option"
  inputValue :: jsstring
  isGenerating :: bool

definition initialState :: State where
  "initialState = \<lparr>projects = [], isLoading = True, credits = None, inputValue = [],
     isGenerating = False\<rparr>"

text \<open>
  The effects of a run, in the order the code performs them: the queries issued to the
  store (with the arguments that decide them), console output (by its label), alerts
  and the assignment to \<open>window.location.href\<close>.
\<close>

datatype event =
    Select_projects jsstring bool
  | Select_user_credits jsstring
  | Insert_user_credits jsstring int
  | Insert_projects jsstring jsstring
  | Console_log jsstring
  | Console_error jsstring
  | Alert jsstring
  | Navigate jsstring

definition PGRST116 :: jsstring where
  "PGRST116 = js ''PGRST116''"

section \<open>loadData\<close>

text \<open>
  The effect of \<open>useEffect\<close> on \<open>[user, supabase]\<close>. Both reads are issued by
  \<open>Promise.all\<close> before either result is looked at; an error of the projects read is
  thrown before the credits result is handled, and \<open>finally\<close> clears \<open>isLoading\<close>.
\<close>

definition loadData :: "User option \<Rightarrow> SupabaseClient option \<Rightarrow> State \<Rightarrow> event list \<times> State" where
  "loadData user supabase s =
     (case user of
        None \<Rightarrow> ([], s\<lparr>isLoading := False\<rparr>)
      | Some u \<Rightarrow>
     (case supabase of
        None \<Rightarrow> ([], s\<lparr>isLoading := False\<rparr>)
      | Some sb \<Rightarrow>
          let projectsResult = select_projects sb;
              creditsResult = select_user_credits sb (id_user u);
              issued = [Select_projects (js ''updated_at'') False, Select_user_credits (id_user u)]
          in
          (case error projectsResult of
             Some e \<Rightarrow>
               (issued @ [Console_error (js ''Failed to load data:'')], s\<lparr>isLoading := False\<rparr>)
           | None \<Rightarrow>
               let s1 = s\<lparr>projects := (case data projectsResult of None \<Rightarrow> [] | Some ps \<Rightarrow> ps)\<rparr>
               in
               (case error creditsResult of
                  Some ce \<Rightarrow>
                    if code ce = PGRST116 then
                      let newData = data (insert_user_credits sb (id_user u) 1000)
                      in (issued @ [Insert_user_credits (id_user u) 1000],
                          s1\<lparr>credits := Some (or_number (map_option row_credits newData) 1000),
                             isLoading := False\<rparr>)
                    else (issued, s1\<lparr>isLoading := False\<rparr>)
                | None \<Rightarrow>
                    (issued,
                     s1\<lparr>credits := Some (or_number (map_option row_credits (data creditsResult)) 0),
                        isLoading := False\<rparr>)))))"

section \<open>handleGenerate\<close>

definition untitled :: jsstring where
  "untitled = [0x672A, 0x547D, 0x540D, 0x9879, 0x76EE]"

text \<open>\<open>inputValue.trim().slice(0, 50) || untitled\<close>\<close>

definition projectTitle :: "jsstring \<Rightarrow> jsstring" where
  "projectTitle prompt = or_string (take 50 (trim prompt)) untitled"

definition please_sign_in :: jsstring where
  "please_sign_in = [0x8BF7, 0x5148, 0x767B, 0x5F55]"

definition system_initialising :: jsstring where
  "system_initialising = [0x7CFB, 0x7EDF, 0x521D, 0x59CB, 0x5316, 0x4E2D, 0xFF0C, 0x8BF7, 0x7A0D,
     0x540E, 0x518D, 0x8BD5]"

definition create_failed :: jsstring where
  "create_failed = [0x521B, 0x5EFA, 0x9879, 0x76EE, 0x5931, 0x8D25, 0x003A, 0x0020]"

text \<open>
  Every value thrown inside the \<open>try\<close> is an \<open>Error\<close> (the one the code builds from the
  insert's error, or the URIError of \<open>encodeURIComponent\<close>), so the alert shows its
  message. The navigation leaves \<open>isGenerating\<close> as it is.
\<close>

definition handleGenerate ::
    "Browser \<Rightarrow> User option \<Rightarrow> SupabaseClient option \<Rightarrow> State \<Rightarrow> event list \<times> State" where
  "handleGenerate br user supabase s =
     (if trim (inputValue s) = [] \<or> isGenerating s then ([], s)
      else
     (case user of
        None \<Rightarrow> ([Alert please_sign_in], s)
      | Some u \<Rightarrow>
     (case supabase of
        None \<Rightarrow> ([Alert system_initialising], s)
      | Some sb \<Rightarrow>
          let s1 = s\<lparr>isGenerating := True\<rparr>;
              newProjectId = uuidv4 br;
              title0 = projectTitle (inputValue s);
              started = [Console_log (js ''Creating project:''), Insert_projects newProjectId title0]
          in
          (case error (insert_projects sb newProjectId title0) of
             Some projectError \<Rightarrow>
               (started @ [Console_error (js ''Failed to create project:''),
                           Console_error (js ''Generation failed:''),
                           Alert (create_failed @ message projectError)],
                s1\<lparr>isGenerating := False\<rparr>)
           | None \<Rightarrow>
               (case encodeURIComponent (trim (inputValue s)) of
                  None \<Rightarrow>
                    (started @ [Console_log (js ''Project created successfully:''),
                                Console_error (js ''Generation failed:''),
                                Alert (URIError_message br)],
                     s1\<lparr>isGenerating := False\<rparr>)
                | Some q \<Rightarrow>
                    (started @ [Console_log (js ''Project created successfully:''),
                                Navigate (js ''/lovart/canvas?id='' @ newProjectId @ js ''&prompt='' @ q)],
                     s1))))))"

section \<open>The recent-projects grid\<close>




text \<open>
  The credits badge of the top bar: rendered inside \<open>SignedIn\<close> and only when
  \<open>credits !== null\<close>; \<open>None\<close> is no badge.
\<close>

definition creditsBadge :: "User option \<Rightarrow> State \<Rightarrow> int option" where
  "creditsBadge user s = (case user of None \<Rightarrow> None | Some u \<Rightarrow> credits s)"

section \<open>Reading a trace\<close>

text \<open>Projections of a trace on one kind of effect, in order.\<close>

fun navigation :: "event \<Rightarrow> jsstring option" where
  "navigation (Navigate url) = Some url"
| "navigation _ = None"

fun alert :: "event \<Rightarrow> jsstring option" where
  "alert (Alert m) = Some m"
| "alert _ = None"

fun credits_insert :: "event \<Rightarrow> (jsstring \<times> int) option" where
  "credits_insert (Insert_user_credits uid n) = Some (uid, n)"
| "credits_insert _ = None"

fun projects_insert :: "event \<Rightarrow> (jsstring \<times> jsstring) option" where
  "projects_insert (Insert_projects i t) = Some (i, t)"
| "projects_insert _ = None"


fun console_error :: "event \<Rightarrow> jsstring option" where
  "console_error (Console_error l) = Some l"
| "console_error _ = None"

definition navigations :: "event list \<Rightarrow> jsstring list" where
  "navigations evs = List.map_filter navigation evs"

definition alerts :: "event list \<Rightarrow> jsstring list" where
  "alerts evs = List.map_filter alert evs"

definition credits_inserts :: "event list \<Rightarrow> (jsstring \<times> int) list" where
  "credits_inserts evs = List.map_filter credits_insert evs"

definition projects_inserts :: "event list \<Rightarrow> (jsstring \<times> jsstring) list" where
  "projects_inserts evs = List.map_filter projects_insert evs"


definition console_errors :: "event list \<Rightarrow> jsstring list" where
  "console_errors evs = List.map_filter console_error evs"

text \<open>\<open>precedes a b evs\<close>: \<open>b\<close> occurs in \<open>evs\<close> after the first occurrence of \<open>a\<close>.\<close>

definition precedes :: "event \<Rightarrow> event \<Rightarrow> event list \<Rightarrow> bool" where
  "precedes a b evs \<longleftrightarrow> b \<in> set (drop 1 (dropWhile (\<lambda>e. e \<noteq> a) evs))"

text \<open>
  The query parameters a URL carries: the text after the first \<open>?\<close>, cut at every
  \<open>&\<close>, each piece cut at its first \<open>=\<close>.
\<close>

definition splitFirst :: "'a \<Rightarrow> 'a list \<Rightarrow> 'a list \<times> 'a list" where
  "splitFirst c s = (takeWhile (\<lambda>x. x \<noteq> c) s, drop 1 (dropWhile (\<lambda>x. x \<noteq> c) s))"

definition splitAll :: "'a \<Rightarrow> 'a list \<Rightarrow> 'a list list" where
  "splitAll c s = foldr (\<lambda>x acc. if x = c then [] # acc else (x # hd acc) # tl acc) s [[]]"

definition queryParams :: "jsstring \<Rightarrow> (jsstring \<times> jsstring) list" where
  "queryParams url = map (splitFirst 0x3D) (splitAll 0x26 (snd (splitFirst 0x3F url)))"

text \<open>The characters of a UUID in its canonical text form: lower-case hex digits and \<open>-\<close>.\<close>

definition isUuidChar :: "16 word \<Rightarrow> bool" where
  "isUuidChar c \<longleftrightarrow> (0x30 \<le> c \<and> c \<le> 0x39) \<or> (0x61 \<le> c \<and> c \<le> 0x66) \<or> c = 0x2D"


section \<open>Example environments\<close>

text \<open>
  Concrete stores and inputs on which the theorems below are instantiated. \<open>emptyStore\<close>
  has no project row and no credit row and answers every query; the other stores differ
  from it in the answer to one query.
\<close>

definition ok :: "'a \<Rightarrow> 'a Response" where
  "ok x = \<lparr>data = Some x, error = None\<rparr>"

definition failed :: "jsstring \<Rightarrow> jsstring \<Rightarrow> 'a Response" where
  "failed c m = \<lparr>data = None, error = Some \<lparr>message = m, code = c\<rparr>\<rparr>"

definition u1 :: User where
  "u1 = \<lparr>id_user = js ''u1''\<rparr>"

definition emptyStore :: SupabaseClient where
  "emptyStore =
     \<lparr>select_projects = ok [],
      select_user_credits = (\<lambda>uid. failed PGRST116 (js ''no rows'')),
      insert_user_credits = (\<lambda>uid n. ok \<lparr>user_id = uid, row_credits = n\<rparr>),
      insert_projects = (\<lambda>i t. ok \<lparr>id_project = i, title = t, thumbnail = None,
                                      updated_at = js ''3''\<rparr>)\<rparr>"

definition network_error :: "'a Response" where
  "network_error = failed [] (js ''network error'')"

definition withBalance :: "int \<Rightarrow> SupabaseClient" where
  "withBalance b = emptyStore\<lparr>select_user_credits := (\<lambda>uid. ok \<lparr>user_id = uid, row_credits = b\<rparr>)\<rparr>"

definition listingDown :: "SupabaseClient \<Rightarrow> SupabaseClient" where
  "listingDown sb = sb\<lparr>select_projects := network_error\<rparr>"

definition creditsInsertDown :: "SupabaseClient \<Rightarrow> SupabaseClient" where
  "creditsInsertDown sb = sb\<lparr>insert_user_credits := (\<lambda>uid n. network_error)\<rparr>"

definition projectsInsertDown :: "SupabaseClient \<Rightarrow> SupabaseClient" where
  "projectsInsertDown sb = sb\<lparr>insert_projects := (\<lambda>i t. network_error)\<rparr>"

definition listing :: "Project list \<Rightarrow> SupabaseClient \<Rightarrow> SupabaseClient" where
  "listing ps sb = sb\<lparr>select_projects := ok ps\<rparr>"

definition no_rows :: PostgrestError where
  "no_rows = \<lparr>message = js ''no rows'', code = PGRST116\<rparr>"

definition projectAt :: "jsstring \<Rightarrow> jsstring \<Rightarrow> Project" where
  "projectAt i t = \<lparr>id_project = i, title = js ''logo'', thumbnail = None, updated_at = t\<rparr>"

definition fourProjects :: "Project list" where
  "fourProjects = [projectAt (js ''d'') (js ''9''), projectAt (js ''c'') (js ''7''),
     projectAt (js ''b'') (js ''7''), projectAt (js ''a'') (js ''2'')]"



definition browser1 :: Browser where
  "browser1 = \<lparr>uuidv4 = js ''9b2f6c1e-3d4a-4f7b-8c21-5e6a7d8f9012'',
     URIError_message = js ''URI malformed''\<rparr>"

definition typed :: "jsstring \<Rightarrow> State" where
  "typed prompt = initialState\<lparr>isLoading := False, inputValue := prompt\<rparr>"

text \<open>A prompt of 50 ASCII characters followed by the first half of an emoji.\<close>

definition cutEmojiPrompt :: jsstring where
  "cutEmojiPrompt = js ''Design a logo for a small coffee roastery in Porto'' @ [0xD83C]"

definition generating :: "jsstring \<Rightarrow> State" where
  "generating prompt = (typed prompt)\<lparr>isGenerating := True\<rparr>"

section \<open>Properties of the string operations\<close>

lemma hexDigit_unescaped: "uriUnescaped (hexDigit n)"
proof -
  have "n mod 16 < length (js ''0123456789ABCDEF'')" by (simp add: js_def)
  then have "hexDigit n \<in> set (js ''0123456789ABCDEF'')"
    unfolding hexDigit_def by (rule nth_mem)
  moreover have "\<forall>c \<in> set (js ''0123456789ABCDEF''). uriUnescaped c"
    by (simp add: js_def uriUnescaped_def)
  ultimately show ?thesis by blast
qed

lemma percentOctet_chars: "c \<in> set (percentOctet b) \<Longrightarrow> uriUnescaped c \<or> c = 0x25"
  using hexDigit_unescaped by (auto simp: percentOctet_def)

lemma escapeCodePoint_chars: "c \<in> set (escapeCodePoint cp) \<Longrightarrow> uriUnescaped c \<or> c = 0x25"
  unfolding escapeCodePoint_def set_concat using percentOctet_chars by auto

text \<open>The encoded text consists of unreserved characters and \<open>%\<close> only.\<close>

lemma encodeURIComponent_chars:
  "encodeURIComponent s = Some q \<Longrightarrow> c \<in> set q \<Longrightarrow> uriUnescaped c \<or> c = 0x25"
proof (induction s arbitrary: q rule: encodeURIComponent.induct)
  case 1
  then show ?case by simp
next
  case (2 x xs)
  show ?case
  proof (cases "uriUnescaped x")
    case True
    with 2 show ?thesis by auto
  next
    case nu: False
    show ?thesis
    proof (cases "\<not> isLeadSurrogate x \<and> \<not> isTrailSurrogate x")
      case True
      with nu 2 show ?thesis by (auto dest: escapeCodePoint_chars)
    next
      case False
      with nu 2 show ?thesis
        by (cases xs) (auto split: if_splits dest: escapeCodePoint_chars)
    qed
  qed
qed

lemma encodeURIComponent_no_amp: "encodeURIComponent s = Some q \<Longrightarrow> 0x26 \<notin> set q"
  using encodeURIComponent_chars [of s q "0x26"] by (auto simp: uriUnescaped_def)

lemma surrogate_not_unescaped: "isLeadSurrogate c \<or> isTrailSurrogate c \<Longrightarrow> \<not> uriUnescaped c"
  by (auto simp: isLeadSurrogate_def isTrailSurrogate_def uriUnescaped_def word_le_nat_alt)

text \<open>\<open>encodeURIComponent\<close> throws exactly on the strings that are not well formed.\<close>

lemma encodeURIComponent_total: "encodeURIComponent s \<noteq> None \<longleftrightarrow> isWellFormed s"
proof (induction s rule: encodeURIComponent.induct)
  case 1
  then show ?case by simp
next
  case (2 c cs)
  show ?case
  proof (cases "isLeadSurrogate c \<or> isTrailSurrogate c")
    case False
    with 2 show ?thesis by simp
  next
    case s: True
    then have nu: "\<not> uriUnescaped c" by (rule surrogate_not_unescaped)
    show ?thesis
    proof (cases "isTrailSurrogate c")
      case True
      with nu show ?thesis by simp
    next
      case nt: False
      with s have l: "isLeadSurrogate c" by simp
      show ?thesis
      proof (cases cs)
        case Nil
        with nu nt l show ?thesis by simp
      next
        case (Cons d ds)
        with nu nt l 2(3) [of d ds] show ?thesis by simp
      qed
    qed
  qed
qed

lemma splitAll_none: "c \<notin> set a \<Longrightarrow> splitAll c a = [a]"
  by (induction a) (auto simp: splitAll_def)

lemma splitAll_append: "c \<notin> set a \<Longrightarrow> splitAll c (a @ c # b) = a # splitAll c b"
  by (induction a) (auto simp: splitAll_def)

lemma splitFirst_append: "c \<notin> set a \<Longrightarrow> splitFirst c (a @ c # b) = (a, b)"
proof -
  assume "c \<notin> set a"
  then have "\<forall>x \<in> set a. x \<noteq> c" by blast
  then have "takeWhile (\<lambda>x. x \<noteq> c) (a @ c # b) = a"
    and "dropWhile (\<lambda>x. x \<noteq> c) (a @ c # b) = c # b"
    by simp_all
  then show ?thesis by (simp add: splitFirst_def)
qed

text \<open>The canvas URL carries the two parameters \<open>id\<close> and \<open>prompt\<close> and no other.\<close>

lemma queryParams_canvas:
  assumes "0x26 \<notin> set i" and "0x26 \<notin> set q"
  shows "queryParams (js ''/lovart/canvas?id='' @ i @ js ''&prompt='' @ q)
           = [(js ''id'', i), (js ''prompt'', q)]"
proof -
  have u: "js ''/lovart/canvas?id='' @ i @ js ''&prompt='' @ q
      = js ''/lovart/canvas'' @ 0x3F # (js ''id='' @ i) @ 0x26 # (js ''prompt='' @ q)"
    by (simp add: js_def)
  have q1: "0x3F \<notin> set (js ''/lovart/canvas'')" by (simp add: js_def)
  have a1: "0x26 \<notin> set (js ''id='' @ i)" using assms by (simp add: js_def)
  have a2: "0x26 \<notin> set (js ''prompt='' @ q)" using assms by (simp add: js_def)
  have s1: "splitFirst 0x3D (js ''id='' @ i) = (js ''id'', i)"
    using splitFirst_append [of "0x3D" "js ''id''" i] by (simp add: js_def)
  have s2: "splitFirst 0x3D (js ''prompt='' @ q) = (js ''prompt'', q)"
    using splitFirst_append [of "0x3D" "js ''prompt''" q] by (simp add: js_def)
  show ?thesis
    unfolding queryParams_def u
    by (simp only: splitFirst_append [OF q1] snd_conv splitAll_append [OF a1] splitAll_none [OF a2]
          list.map s1 s2)
qed

lemma uuid_no_amp: "\<forall>c \<in> set i. isUuidChar c \<Longrightarrow> 0x26 \<notin> set i"
  by (auto simp: isUuidChar_def)

section \<open>Auxiliary facts about the flows\<close>

lemma projectTitle_nonempty: "projectTitle p \<noteq> []"
  by (simp add: projectTitle_def or_string_def untitled_def)

lemma handleGenerate_inserts:
  "projects_inserts (fst (handleGenerate br user supabase s)) = [] \<or>
   projects_inserts (fst (handleGenerate br user supabase s))
     = [(uuidv4 br, projectTitle (inputValue s))]"
  by (simp add: handleGenerate_def projects_inserts_def List.map_filter_simps Let_def
        split: option.splits)

lemmas ex_defs = emptyStore_def ok_def failed_def u1_def network_error_def withBalance_def
  browser1_def typed_def generating_def initialState_def PGRST116_def listingDown_def
  creditsInsertDown_def projectsInsertDown_def listing_def no_rows_def

lemmas trace_defs = navigations_def alerts_def credits_inserts_def projects_inserts_def
  console_errors_def List.map_filter_simps

subsection \<open>loadData, branch by branch\<close>


lemma loadData_PGRST116_branch:
  "error (select_projects sb) = None \<Longrightarrow> error (select_user_credits sb (id_user u)) = Some e \<Longrightarrow>
   code e = PGRST116 \<Longrightarrow>
   loadData (Some u) (Some sb) s =
     ([Select_projects (js ''updated_at'') False, Select_user_credits (id_user u),
       Insert_user_credits (id_user u) 1000],
      s\<lparr>projects := (case data (select_projects sb) of None \<Rightarrow> [] | Some ps \<Rightarrow> ps),
        credits := Some (or_number (map_option row_credits (data (insert_user_credits sb (id_user u) 1000))) 1000),
        isLoading := False\<rparr>)"
  by (simp add: loadData_def Let_def)

lemma loadData_projects:
  "projects (snd (loadData (Some u) (Some sb) s)) =
     (case error (select_projects sb) of
        Some e \<Rightarrow> projects s
      | None \<Rightarrow> (case data (select_projects sb) of None \<Rightarrow> [] | Some ps \<Rightarrow> ps))"
  by (simp add: loadData_def Let_def split: option.splits)

lemma loadData_credits:
  "credits (snd (loadData (Some u) (Some sb) s)) =
     (case error (select_projects sb) of
        Some e \<Rightarrow> credits s
      | None \<Rightarrow>
          (case error (select_user_credits sb (id_user u)) of
             Some ce \<Rightarrow>
               if code ce = PGRST116
               then Some (or_number (map_option row_credits (data (insert_user_credits sb (id_user u) 1000))) 1000)
               else credits s
           | None \<Rightarrow> Some (or_number (map_option row_credits (data (select_user_credits sb (id_user u)))) 0)))"
  by (simp add: loadData_def Let_def split: option.splits)

lemma loadData_credits_inserts:
  "credits_inserts (fst (loadData user supabase s)) =
     (case user of None \<Rightarrow> [] | Some u \<Rightarrow>
      (case supabase of None \<Rightarrow> [] | Some sb \<Rightarrow>
        (case error (select_projects sb) of
           Some e \<Rightarrow> []
         | None \<Rightarrow>
            (case error (select_user_credits sb (id_user u)) of
               Some ce \<Rightarrow> if code ce = PGRST116 then [(id_user u, 1000)] else []
             | None \<Rightarrow> []))))"
  by (simp add: loadData_def Let_def trace_defs split: option.splits)



subsection \<open>The scenario of the specification\<close>

lemma trim_example: "trim (js ''  Design a logo  '') = js ''Design a logo''"
  by (simp add: trim_def js_def isWhiteSpace_def)

lemma encode_example: "encodeURIComponent (js ''Design a logo'') = Some (js ''Design%20a%20logo'')"
  by (simp add: js_def uriUnescaped_def escapeCodePoint_def utf8_def percentOctet_def hexDigit_def
        isLeadSurrogate_def isTrailSurrogate_def)

lemma run_example:
  "fst (handleGenerate browser1 (Some u1) (Some emptyStore) (typed (js ''  Design a logo  '')))
    = [Console_log (js ''Creating project:''),
       Insert_projects (uuidv4 browser1) (js ''Design a logo''),
       Console_log (js ''Project created successfully:''),
       Navigate (js ''/lovart/canvas?id=9b2f6c1e-3d4a-4f7b-8c21-5e6a7d8f9012&prompt=Design%20a%20logo'')]"
  by (simp add: handleGenerate_def ex_defs trim_example encode_example projectTitle_def or_string_def Let_def)
     (simp add: js_def)

lemma typed_ready:
  "trim (inputValue (typed (js ''  Design a logo  ''))) \<noteq> []"
  "\<not> isGenerating (typed (js ''  Design a logo  ''))"
  by (simp_all add: typed_def initialState_def trim_example) (simp add: js_def)

lemma emptyStore_answers:
  "error (select_projects emptyStore) = None"
  "error (select_user_credits emptyStore uid) = Some no_rows"
  "code no_rows = PGRST116"
  "error (insert_projects emptyStore i t) = None"
  by (simp_all add: emptyStore_def ok_def failed_def no_rows_def)

section \<open>Properties of the dashboard flows\<close>

text \<open>
  C1, as stated, fails: with the same credit record (balance 500) the balance adopted
  is 500 when the projects read succeeds and none when it fails.
\<close>

theorem loadData_credits_depend_on_listing:
  "credits (snd (loadData (Some u1) (Some (withBalance 500)) initialState)) = Some 500 \<and>
   credits (snd (loadData (Some u1) (Some (listingDown (withBalance 500))) initialState)) = None"
  by (simp add: loadData_credits ex_defs or_number_def)

text \<open>
  C1, amended. The credits result is handled only after the projects read has resolved
  without error: when that read fails, no balance is adopted and no insert is issued;
  when it succeeds, the balance adopted and the insert issued depend on the answers to
  the credit queries alone, not on the projects returned. The stored project list
  never depends on the answers to the credit queries.
\<close>

theorem loadData_credits_gated_by_listing:
  "(error (select_projects sb) \<noteq> None \<longrightarrow>
      credits (snd (loadData (Some u) (Some sb) s)) = credits s \<and>
      credits_inserts (fst (loadData (Some u) (Some sb) s)) = []) \<and>
   (error (select_projects sb) = None \<and> error (select_projects sb') = None \<and>
    select_user_credits sb' = select_user_credits sb \<and> insert_user_credits sb' = insert_user_credits sb \<longrightarrow>
      credits (snd (loadData (Some u) (Some sb') s)) = credits (snd (loadData (Some u) (Some sb) s)) \<and>
      credits_inserts (fst (loadData (Some u) (Some sb') s))
        = credits_inserts (fst (loadData (Some u) (Some sb) s))) \<and>
   (select_projects sb' = select_projects sb \<longrightarrow>
      projects (snd (loadData (Some u) (Some sb') s)) = projects (snd (loadData (Some u) (Some sb) s)))"
proof (intro conjI impI)
  assume "error (select_projects sb) \<noteq> None"
  then show "credits (snd (loadData (Some u) (Some sb) s)) = credits s"
    and "credits_inserts (fst (loadData (Some u) (Some sb) s)) = []"
    by (auto simp: loadData_credits loadData_credits_inserts)
next
  assume a: "error (select_projects sb) = None \<and> error (select_projects sb') = None \<and>
    select_user_credits sb' = select_user_credits sb \<and> insert_user_credits sb' = insert_user_credits sb"
  from a show "credits (snd (loadData (Some u) (Some sb') s)) = credits (snd (loadData (Some u) (Some sb) s))"
    by (simp add: loadData_credits split: option.splits)
  from a show "credits_inserts (fst (loadData (Some u) (Some sb') s))
      = credits_inserts (fst (loadData (Some u) (Some sb) s))"
    by (simp add: loadData_credits_inserts)
next
  assume "select_projects sb' = select_projects sb"
  then show "projects (snd (loadData (Some u) (Some sb') s)) = projects (snd (loadData (Some u) (Some sb) s))"
    by (simp add: loadData_projects split: option.splits)
qed

theorem loadData_credits_gated_by_listing_witness:
  "error (select_projects (listingDown (withBalance 500))) \<noteq> None \<and>
   credits (snd (loadData (Some u1) (Some (listingDown (withBalance 500))) initialState))
     = credits initialState \<and>
   error (select_projects (withBalance 500)) = None \<and>
   error (select_projects (listing fourProjects (withBalance 500))) = None \<and>
   credits (snd (loadData (Some u1) (Some (listing fourProjects (withBalance 500))) initialState))
     = credits (snd (loadData (Some u1) (Some (withBalance 500)) initialState)) \<and>
   projects (snd (loadData (Some u1) (Some (creditsInsertDown (withBalance 500))) initialState))
     = projects (snd (loadData (Some u1) (Some (withBalance 500)) initialState))"
proof -
  have f: "error (select_projects (listingDown (withBalance 500))) \<noteq> None"
    by (simp add: listingDown_def network_error_def failed_def)
  have a: "error (select_projects (withBalance 500)) = None" by (simp add: ex_defs)
  have b: "error (select_projects (listing fourProjects (withBalance 500))) = None"
    by (simp add: listing_def ok_def)
  have c: "select_user_credits (listing fourProjects (withBalance 500))
             = select_user_credits (withBalance 500)"
    and d: "insert_user_credits (listing fourProjects (withBalance 500))
             = insert_user_credits (withBalance 500)"
    and e: "select_projects (creditsInsertDown (withBalance 500)) = select_projects (withBalance 500)"
    by (simp_all add: listing_def creditsInsertDown_def)
  note t1 = loadData_credits_gated_by_listing
    [of "listingDown (withBalance 500)" u1 initialState "withBalance 500"]
  note t2 = loadData_credits_gated_by_listing
    [of "withBalance 500" u1 initialState "listing fourProjects (withBalance 500)"]
  note t3 = loadData_credits_gated_by_listing
    [of "withBalance 500" u1 initialState "creditsInsertDown (withBalance 500)"]
  from t1 f have r1: "credits (snd (loadData (Some u1) (Some (listingDown (withBalance 500))) initialState))
     = credits initialState" by blast
  from t2 a b c d
  have r2: "credits (snd (loadData (Some u1) (Some (listing fourProjects (withBalance 500))) initialState))
     = credits (snd (loadData (Some u1) (Some (withBalance 500)) initialState))" by blast
  from t3 e
  have r3: "projects (snd (loadData (Some u1) (Some (creditsInsertDown (withBalance 500))) initialState))
     = projects (snd (loadData (Some u1) (Some (withBalance 500)) initialState))" by blast
  from f a b r1 r2 r3 show ?thesis by blast
qed

text \<open>
  C2. When the trimmed prompt is not empty, the title is its first 50 code units, and
  the trimmed prompt itself when that has at most 50; the title is never empty (the
  fallback literal stands in for an empty trimmed prompt), and the title of every
  project insert that \<open>handleGenerate\<close> issues is this title.
\<close>

theorem projectTitle_spec:
  "(trim p \<noteq> [] \<longrightarrow> projectTitle p = take 50 (trim p)) \<and>
   (trim p \<noteq> [] \<and> length (trim p) \<le> 50 \<longrightarrow> projectTitle p = trim p) \<and>
   projectTitle p \<noteq> [] \<and>
   (\<forall>i t. (i, t) \<in> set (projects_inserts (fst (handleGenerate br user supabase (s\<lparr>inputValue := p\<rparr>))))
       \<longrightarrow> t = projectTitle p \<and> t \<noteq> [])"
proof -
  have a: "trim p \<noteq> [] \<longrightarrow> projectTitle p = take 50 (trim p)"
    by (simp add: projectTitle_def or_string_def)
  have b: "trim p \<noteq> [] \<and> length (trim p) \<le> 50 \<longrightarrow> projectTitle p = trim p"
    by (simp add: projectTitle_def or_string_def)
  have c: "projectTitle p \<noteq> []" by (rule projectTitle_nonempty)
  have d: "\<forall>i t. (i, t) \<in> set (projects_inserts (fst (handleGenerate br user supabase (s\<lparr>inputValue := p\<rparr>))))
       \<longrightarrow> t = projectTitle p \<and> t \<noteq> []"
    using handleGenerate_inserts [of br user supabase "s\<lparr>inputValue := p\<rparr>"] c by auto
  from a b c d show ?thesis by blast
qed

theorem projectTitle_spec_witness:
  "trim (js ''  Design a logo  '') \<noteq> [] \<and> length (trim (js ''  Design a logo  '')) \<le> 50 \<and>
   projectTitle (js ''  Design a logo  '') = js ''Design a logo'' \<and>
   (uuidv4 browser1, js ''Design a logo'') \<in> set (projects_inserts (fst (handleGenerate browser1 (Some u1)
        (Some emptyStore) (typed (js ''  Design a logo  '')))))"
proof -
  note t = projectTitle_spec [of "js ''  Design a logo  ''" browser1 "Some u1" "Some emptyStore" "typed []"]
  have ne: "trim (js ''  Design a logo  '') \<noteq> []" by (simp add: trim_example) (simp add: js_def)
  have le: "length (trim (js ''  Design a logo  '')) \<le> 50" by (simp add: trim_example) (simp add: js_def)
  from t ne le have "projectTitle (js ''  Design a logo  '') = trim (js ''  Design a logo  '')" by blast
  then have pt: "projectTitle (js ''  Design a logo  '') = js ''Design a logo''" by (simp only: trim_example)
  have ins: "(uuidv4 browser1, js ''Design a logo'') \<in> set (projects_inserts (fst (handleGenerate browser1 (Some u1)
        (Some emptyStore) (typed (js ''  Design a logo  '')))))"
    by (simp add: run_example trace_defs)
  from ne le pt ins show ?thesis by blast
qed

text \<open>
  C3, as stated, fails: a prompt of 50 ASCII characters followed by an unpaired lead
  surrogate (an emoji cut in half) gets the 50 characters as title and is inserted
  successfully, but \<open>encodeURIComponent\<close> throws on it: nothing is navigated to,
  the URIError's message is alerted and \<open>isGenerating\<close> is reset.
\<close>

theorem handleGenerate_unpaired_surrogate:
  "projectTitle cutEmojiPrompt = js ''Design a logo for a small coffee roastery in Porto'' \<and>
   error (insert_projects emptyStore (uuidv4 browser1) (projectTitle cutEmojiPrompt)) = None \<and>
   navigations (fst (handleGenerate browser1 (Some u1) (Some emptyStore) (typed cutEmojiPrompt))) = [] \<and>
   alerts (fst (handleGenerate browser1 (Some u1) (Some emptyStore) (typed cutEmojiPrompt)))
     = [js ''URI malformed''] \<and>
   isGenerating (snd (handleGenerate browser1 (Some u1) (Some emptyStore) (typed cutEmojiPrompt))) = False"
proof -
  have t: "trim cutEmojiPrompt = cutEmojiPrompt"
    by (simp add: cutEmojiPrompt_def trim_def js_def isWhiteSpace_def)
  have e: "encodeURIComponent cutEmojiPrompt = None"
    by (simp add: cutEmojiPrompt_def js_def uriUnescaped_def escapeCodePoint_def utf8_def
        percentOctet_def hexDigit_def isLeadSurrogate_def isTrailSurrogate_def)
  have n: "cutEmojiPrompt \<noteq> []" by (simp add: cutEmojiPrompt_def)
  have p: "projectTitle cutEmojiPrompt = js ''Design a logo for a small coffee roastery in Porto''"
    by (simp add: projectTitle_def or_string_def t) (simp add: cutEmojiPrompt_def js_def)
  have r: "navigations (fst (handleGenerate browser1 (Some u1) (Some emptyStore) (typed cutEmojiPrompt))) = [] \<and>
   alerts (fst (handleGenerate browser1 (Some u1) (Some emptyStore) (typed cutEmojiPrompt)))
     = [js ''URI malformed''] \<and>
   isGenerating (snd (handleGenerate browser1 (Some u1) (Some emptyStore) (typed cutEmojiPrompt))) = False"
    using n by (simp add: handleGenerate_def ex_defs t e Let_def trace_defs)
  from p r emptyStore_answers(4) show ?thesis by blast
qed

text \<open>
  C3, amended. For a submission that passes the guards and whose insert resolves
  without error: if the trimmed prompt is well formed (no unpaired surrogate), the run
  navigates once, to \<open>/lovart/canvas?id=\<close> followed by the generated id,
  \<open>&prompt=\<close> and \<open>encodeURIComponent\<close> of the whole trimmed prompt (not of the
  title); for an id made of UUID characters that URL carries exactly the two parameters
  \<open>id\<close> and \<open>prompt\<close>; nothing is alerted and \<open>isGenerating\<close> stays true. If the
  trimmed prompt is not well formed, the run does not navigate, alerts the URIError's
  message and resets \<open>isGenerating\<close>.
\<close>

theorem handleGenerate_navigates:
  assumes "trim (inputValue s) \<noteq> []" and "\<not> isGenerating s"
    and "user = Some u" and "supabase = Some sb"
    and "error (insert_projects sb (uuidv4 br) (projectTitle (inputValue s))) = None"
  shows "(isWellFormed (trim (inputValue s)) \<longrightarrow>
           (\<exists>q. encodeURIComponent (trim (inputValue s)) = Some q \<and>
             navigations (fst (handleGenerate br user supabase s))
               = [js ''/lovart/canvas?id='' @ uuidv4 br @ js ''&prompt='' @ q] \<and>
             ((\<forall>c \<in> set (uuidv4 br). isUuidChar c) \<longrightarrow>
                queryParams (js ''/lovart/canvas?id='' @ uuidv4 br @ js ''&prompt='' @ q)
                  = [(js ''id'', uuidv4 br), (js ''prompt'', q)]) \<and>
             alerts (fst (handleGenerate br user supabase s)) = [] \<and>
             isGenerating (snd (handleGenerate br user supabase s)) = True)) \<and>
         (\<not> isWellFormed (trim (inputValue s)) \<longrightarrow>
             navigations (fst (handleGenerate br user supabase s)) = [] \<and>
             alerts (fst (handleGenerate br user supabase s)) = [URIError_message br] \<and>
             isGenerating (snd (handleGenerate br user supabase s)) = False)"
proof (cases "encodeURIComponent (trim (inputValue s))")
  case None
  then have "\<not> isWellFormed (trim (inputValue s))"
    using encodeURIComponent_total [of "trim (inputValue s)"] by simp
  with None assms show ?thesis
    by (simp add: handleGenerate_def Let_def trace_defs)
next
  case (Some q)
  then have w: "isWellFormed (trim (inputValue s))"
    using encodeURIComponent_total [of "trim (inputValue s)"] by simp
  have amp: "0x26 \<notin> set q" using Some by (rule encodeURIComponent_no_amp)
  have nav: "navigations (fst (handleGenerate br user supabase s))
               = [js ''/lovart/canvas?id='' @ uuidv4 br @ js ''&prompt='' @ q]"
    using Some assms by (simp add: handleGenerate_def Let_def trace_defs)
  have al: "alerts (fst (handleGenerate br user supabase s)) = []"
    using Some assms by (simp add: handleGenerate_def Let_def trace_defs)
  have fl: "isGenerating (snd (handleGenerate br user supabase s)) = True"
    using Some assms by (simp add: handleGenerate_def Let_def)
  have qp: "(\<forall>c \<in> set (uuidv4 br). isUuidChar c) \<longrightarrow>
                queryParams (js ''/lovart/canvas?id='' @ uuidv4 br @ js ''&prompt='' @ q)
                  = [(js ''id'', uuidv4 br), (js ''prompt'', q)]"
    using queryParams_canvas [OF uuid_no_amp amp] by blast
  from w Some nav al fl qp show ?thesis by blast
qed

theorem handleGenerate_navigates_witness:
  "isWellFormed (trim (inputValue (typed (js ''  Design a logo  '')))) \<and>
   list_all isUuidChar (uuidv4 browser1) \<and>
   navigations (fst (handleGenerate browser1 (Some u1) (Some emptyStore) (typed (js ''  Design a logo  ''))))
     = [js ''/lovart/canvas?id=9b2f6c1e-3d4a-4f7b-8c21-5e6a7d8f9012&prompt=Design%20a%20logo''] \<and>
   queryParams (js ''/lovart/canvas?id=9b2f6c1e-3d4a-4f7b-8c21-5e6a7d8f9012&prompt=Design%20a%20logo'')
     = [(js ''id'', js ''9b2f6c1e-3d4a-4f7b-8c21-5e6a7d8f9012''), (js ''prompt'', js ''Design%20a%20logo'')] \<and>
   isGenerating (snd (handleGenerate browser1 (Some u1) (Some emptyStore) (typed (js ''  Design a logo  ''))))"
proof -
  have iv: "inputValue (typed (js ''  Design a logo  '')) = js ''  Design a logo  ''"
    by (simp add: typed_def)
  have w: "isWellFormed (trim (inputValue (typed (js ''  Design a logo  ''))))"
    by (simp add: iv trim_example) (simp add: js_def isLeadSurrogate_def isTrailSurrogate_def)
  have uu: "\<forall>c \<in> set (uuidv4 browser1). isUuidChar c"
    by (simp add: browser1_def js_def isUuidChar_def)
  have en: "encodeURIComponent (trim (inputValue (typed (js ''  Design a logo  ''))))
      = Some (js ''Design%20a%20logo'')"
    by (simp add: iv trim_example encode_example)
  have ur: "js ''/lovart/canvas?id='' @ js ''9b2f6c1e-3d4a-4f7b-8c21-5e6a7d8f9012'' @ js ''&prompt=''
       @ js ''Design%20a%20logo''
     = js ''/lovart/canvas?id=9b2f6c1e-3d4a-4f7b-8c21-5e6a7d8f9012&prompt=Design%20a%20logo''"
    by (simp add: js_def)
  have id: "uuidv4 browser1 = js ''9b2f6c1e-3d4a-4f7b-8c21-5e6a7d8f9012''" by (simp add: browser1_def)
  from handleGenerate_navigates [where u = u1 and user = "Some u1",
      OF typed_ready refl refl emptyStore_answers(4)] w uu en
  have "navigations (fst (handleGenerate browser1 (Some u1) (Some emptyStore) (typed (js ''  Design a logo  ''))))
     = [js ''/lovart/canvas?id='' @ uuidv4 browser1 @ js ''&prompt='' @ js ''Design%20a%20logo''] \<and>
     queryParams (js ''/lovart/canvas?id='' @ uuidv4 browser1 @ js ''&prompt='' @ js ''Design%20a%20logo'')
       = [(js ''id'', uuidv4 browser1), (js ''prompt'', js ''Design%20a%20logo'')] \<and>
     isGenerating (snd (handleGenerate browser1 (Some u1) (Some emptyStore) (typed (js ''  Design a logo  ''))))"
    by auto
  moreover have "list_all isUuidChar (uuidv4 browser1)" using uu by (simp add: list_all_iff)
  ultimately show ?thesis using w by (simp only: id ur)
qed

text \<open>
  C4. When the project insert resolves with an error of message \<open>M\<close>, the one alert
  shown is the prefix literal followed by \<open>M\<close>, \<open>isGenerating\<close> is back to false
  (the state is the one before the submission) and nothing is navigated to.
\<close>

theorem handleGenerate_insert_failure:
  assumes "trim (inputValue s) \<noteq> []" and "\<not> isGenerating s"
    and "user = Some u" and "supabase = Some sb"
    and "error (insert_projects sb (uuidv4 br) (projectTitle (inputValue s))) = Some e"
  shows "alerts (fst (handleGenerate br user supabase s)) = [create_failed @ message e] \<and>
         isGenerating (snd (handleGenerate br user supabase s)) = False \<and>
         navigations (fst (handleGenerate br user supabase s)) = [] \<and>
         snd (handleGenerate br user supabase s) = s"
  using assms by (simp add: handleGenerate_def Let_def trace_defs)

theorem handleGenerate_insert_failure_witness:
  "alerts (fst (handleGenerate browser1 (Some u1) (Some (projectsInsertDown emptyStore))
      (typed (js ''  Design a logo  ''))))
     = [[0x521B, 0x5EFA, 0x9879, 0x76EE, 0x5931, 0x8D25, 0x003A, 0x0020] @ js ''network error''] \<and>
   isGenerating (snd (handleGenerate browser1 (Some u1) (Some (projectsInsertDown emptyStore))
      (typed (js ''  Design a logo  '')))) = False \<and>
   navigations (fst (handleGenerate browser1 (Some u1) (Some (projectsInsertDown emptyStore))
      (typed (js ''  Design a logo  '')))) = []"
proof -
  have er: "error (insert_projects (projectsInsertDown emptyStore) (uuidv4 browser1)
      (projectTitle (inputValue (typed (js ''  Design a logo  '')))))
        = Some \<lparr>message = js ''network error'', code = []\<rparr>"
    by (simp add: projectsInsertDown_def network_error_def failed_def)
  from handleGenerate_insert_failure [where u = u1 and user = "Some u1", OF typed_ready refl refl er]
    typed_ready(2)
  show ?thesis
    by (simp add: create_failed_def)
qed

text \<open>
  C5, as stated, fails: for an identity without a credit record (the read answers
  PGRST116) no insert is issued and no balance adopted when the projects read fails.
\<close>

theorem loadData_no_insert_when_listing_fails:
  "error (select_user_credits (listingDown emptyStore) (id_user u1)) = Some no_rows \<and>
   code no_rows = PGRST116 \<and>
   credits_inserts (fst (loadData (Some u1) (Some (listingDown emptyStore)) initialState)) = [] \<and>
   credits (snd (loadData (Some u1) (Some (listingDown emptyStore)) initialState)) = None"
  by (simp add: loadData_credits loadData_credits_inserts emptyStore_def failed_def network_error_def
        initialState_def listingDown_def no_rows_def)

text \<open>
  C5, amended. When the projects read resolved without error and the single-row read
  of the identity's credit record fails with code PGRST116, exactly one insert is
  issued, with that identity and balance 1000, and the balance adopted is that of the
  returned row, 1000 standing in when no row is returned or its balance is 0: so 1000
  whenever the store returns the row as inserted. An insert is issued by no other run:
  only for a signed-in identity, after a projects read without error and a credits
  read that failed with PGRST116.
\<close>

theorem loadData_bootstrap:
  "(error (select_projects sb) = None \<and> error (select_user_credits sb (id_user u)) = Some e \<and>
    code e = PGRST116 \<longrightarrow>
      credits_inserts (fst (loadData (Some u) (Some sb) s)) = [(id_user u, 1000)] \<and>
      credits (snd (loadData (Some u) (Some sb) s))
        = Some (or_number (map_option row_credits (data (insert_user_credits sb (id_user u) 1000))) 1000) \<and>
      ((\<forall>r. data (insert_user_credits sb (id_user u) 1000) = Some r \<longrightarrow> row_credits r = 1000) \<longrightarrow>
         credits (snd (loadData (Some u) (Some sb) s)) = Some 1000)) \<and>
   (credits_inserts (fst (loadData user supabase s)) \<noteq> [] \<longrightarrow>
      (\<exists>u' sb' e'. user = Some u' \<and> supabase = Some sb' \<and>
         error (select_user_credits sb' (id_user u')) = Some e' \<and> code e' = PGRST116 \<and>
         error (select_projects sb') = None \<and>
         credits_inserts (fst (loadData user supabase s)) = [(id_user u', 1000)]))"
proof (intro conjI impI)
  assume a: "error (select_projects sb) = None \<and> error (select_user_credits sb (id_user u)) = Some e \<and>
    code e = PGRST116"
  from a show "credits_inserts (fst (loadData (Some u) (Some sb) s)) = [(id_user u, 1000)]"
    by (simp add: loadData_credits_inserts)
  from a show c: "credits (snd (loadData (Some u) (Some sb) s))
        = Some (or_number (map_option row_credits (data (insert_user_credits sb (id_user u) 1000))) 1000)"
    by (simp add: loadData_credits)
  assume "\<forall>r. data (insert_user_credits sb (id_user u) 1000) = Some r \<longrightarrow> row_credits r = 1000"
  then show "credits (snd (loadData (Some u) (Some sb) s)) = Some 1000"
    unfolding c by (cases "data (insert_user_credits sb (id_user u) 1000)") (simp_all add: or_number_def)
next
  assume "credits_inserts (fst (loadData user supabase s)) \<noteq> []"
  then show "\<exists>u' sb' e'. user = Some u' \<and> supabase = Some sb' \<and>
         error (select_user_credits sb' (id_user u')) = Some e' \<and> code e' = PGRST116 \<and>
         error (select_projects sb') = None \<and>
         credits_inserts (fst (loadData user supabase s)) = [(id_user u', 1000)]"
    by (auto simp: loadData_credits_inserts split: option.splits if_splits)
qed

theorem loadData_bootstrap_witness:
  "error (select_projects emptyStore) = None \<and>
   error (select_user_credits emptyStore (id_user u1)) = Some no_rows \<and> code no_rows = PGRST116 \<and>
   credits_inserts (fst (loadData (Some u1) (Some emptyStore) initialState)) = [(js ''u1'', 1000)] \<and>
   credits (snd (loadData (Some u1) (Some emptyStore) initialState)) = Some 1000"
proof -
  note a = emptyStore_answers(1) and b = emptyStore_answers(2) [of "id_user u1"]
    and c = emptyStore_answers(3)
  have d: "\<forall>r. data (insert_user_credits emptyStore (id_user u1) 1000) = Some r \<longrightarrow> row_credits r = 1000"
    by (auto simp: emptyStore_def ok_def)
  have i: "id_user u1 = js ''u1''" by (simp add: u1_def)
  from loadData_bootstrap [of emptyStore u1 no_rows initialState "Some u1" "Some emptyStore"] a b c d
  have "credits_inserts (fst (loadData (Some u1) (Some emptyStore) initialState)) = [(id_user u1, 1000)] \<and>
        credits (snd (loadData (Some u1) (Some emptyStore) initialState)) = Some 1000"
    by blast
  with a b c show ?thesis by (simp only: i)
qed

text \<open>
  C6, as stated, fails: when the insert issued after a PGRST116 read itself fails, the
  balance 1000 is adopted all the same.
\<close>

theorem loadData_adopts_default_on_insert_failure:
  "error (insert_user_credits (creditsInsertDown emptyStore) (id_user u1) 1000)
     = Some \<lparr>message = js ''network error'', code = []\<rparr> \<and>
   credits (snd (loadData (Some u1) (Some (creditsInsertDown emptyStore)) initialState)) = Some 1000"
  by (simp add: loadData_credits emptyStore_def ok_def failed_def network_error_def or_number_def
        creditsInsertDown_def)

text \<open>
  C6, amended. After a projects read without error and a credits read that failed with
  PGRST116, a failure of the insert (no row returned) is swallowed, nothing is logged
  or alerted, and the default balance 1000 is adopted: a balance is adopted whether the
  insert succeeds or not.
\<close>

theorem loadData_insert_failure_swallowed:
  assumes "error (select_projects sb) = None"
    and "error (select_user_credits sb (id_user u)) = Some e" and "code e = PGRST116"
  shows "(data (insert_user_credits sb (id_user u) 1000) = None \<longrightarrow>
           credits (snd (loadData (Some u) (Some sb) s)) = Some 1000) \<and>
         credits (snd (loadData (Some u) (Some sb) s)) \<noteq> None \<and>
         console_errors (fst (loadData (Some u) (Some sb) s)) = [] \<and>
         alerts (fst (loadData (Some u) (Some sb) s)) = []"
  using assms by (simp add: loadData_PGRST116_branch or_number_def trace_defs)

theorem loadData_insert_failure_swallowed_witness:
  "error (insert_user_credits (creditsInsertDown emptyStore) (id_user u1) 1000) \<noteq> None \<and>
   data (insert_user_credits (creditsInsertDown emptyStore) (id_user u1) 1000) = None \<and>
   credits (snd (loadData (Some u1) (Some (creditsInsertDown emptyStore)) initialState)) = Some 1000 \<and>
   console_errors (fst (loadData (Some u1) (Some (creditsInsertDown emptyStore)) initialState)) = []"
proof -
  have a: "error (select_projects (creditsInsertDown emptyStore)) = None"
    by (simp add: creditsInsertDown_def emptyStore_def ok_def)
  have b: "error (select_user_credits (creditsInsertDown emptyStore) (id_user u1)) = Some no_rows"
    by (simp add: creditsInsertDown_def emptyStore_def failed_def no_rows_def)
  have d: "data (insert_user_credits (creditsInsertDown emptyStore) (id_user u1) 1000) = None"
    and d': "error (insert_user_credits (creditsInsertDown emptyStore) (id_user u1) 1000) \<noteq> None"
    by (simp_all add: creditsInsertDown_def network_error_def failed_def)
  from loadData_insert_failure_swallowed [OF a b emptyStore_answers(3), of initialState] d d'
  show ?thesis by blast
qed

text \<open>
  C7. With a prompt that is empty after trimming, or while a creation is in flight,
  \<open>handleGenerate\<close> has no effect at all: the trace is empty (no insert, no
  navigation, no alert) and the state is returned as it was.
\<close>

theorem handleGenerate_noop:
  "trim (inputValue s) = [] \<or> isGenerating s \<Longrightarrow> handleGenerate br user supabase s = ([], s)"
  by (simp add: handleGenerate_def)

theorem handleGenerate_noop_witness:
  "trim (inputValue (typed (js ''   ''))) = [] \<and>
   handleGenerate browser1 (Some u1) (Some emptyStore) (typed (js ''   '')) = ([], typed (js ''   '')) \<and>
   isGenerating (generating (js ''logo'')) \<and>
   handleGenerate browser1 (Some u1) (Some emptyStore) (generating (js ''logo''))
     = ([], generating (js ''logo''))"
proof -
  have e: "trim (inputValue (typed (js ''   ''))) = []"
    by (simp add: typed_def trim_def js_def isWhiteSpace_def)
  have g: "isGenerating (generating (js ''logo''))" by (simp add: generating_def)
  from e have a: "handleGenerate browser1 (Some u1) (Some emptyStore) (typed (js ''   ''))
      = ([], typed (js ''   ''))"
    by (intro handleGenerate_noop disjI1)
  from g have b: "handleGenerate browser1 (Some u1) (Some emptyStore) (generating (js ''logo''))
     = ([], generating (js ''logo''))"
    by (intro handleGenerate_noop disjI2)
  from e g a b show ?thesis by blast
qed

text \<open>
  C8, as stated, fails: for an identity whose credit record has balance 250, nothing is
  displayed when the projects read fails.
\<close>

theorem loadData_balance_hidden_when_listing_fails:
  "select_user_credits (listingDown (withBalance 250)) (id_user u1)
     = ok \<lparr>user_id = js ''u1'', row_credits = 250\<rparr> \<and>
   creditsBadge (Some u1) (snd (loadData (Some u1) (Some (listingDown (withBalance 250))) initialState))
     = None"
  by (simp add: creditsBadge_def loadData_credits ex_defs)

text \<open>
  C8, amended. When the single-row read returns the identity's credit record, no insert
  is issued; and when the projects read resolved without error as well, the balance
  adopted and displayed is the balance \<open>B\<close> of that record.
\<close>

theorem loadData_existing_balance:
  assumes "error (select_user_credits sb (id_user u)) = None"
    and "data (select_user_credits sb (id_user u)) = Some row"
  shows "credits_inserts (fst (loadData (Some u) (Some sb) s)) = [] \<and>
         (error (select_projects sb) = None \<longrightarrow>
            credits (snd (loadData (Some u) (Some sb) s)) = Some (row_credits row) \<and>
            creditsBadge (Some u) (snd (loadData (Some u) (Some sb) s)) = Some (row_credits row))"
  using assms
  by (simp add: creditsBadge_def loadData_credits loadData_credits_inserts or_number_def
        split: option.splits)

theorem loadData_existing_balance_witness:
  "error (select_user_credits (withBalance 250) (id_user u1)) = None \<and>
   error (select_projects (withBalance 250)) = None \<and>
   credits_inserts (fst (loadData (Some u1) (Some (withBalance 250)) initialState)) = [] \<and>
   creditsBadge (Some u1) (snd (loadData (Some u1) (Some (withBalance 250)) initialState)) = Some 250"
proof -
  have a: "error (select_user_credits (withBalance 250) (id_user u1)) = None"
    by (simp add: withBalance_def ok_def)
  have b: "data (select_user_credits (withBalance 250) (id_user u1))
      = Some \<lparr>user_id = id_user u1, row_credits = 250\<rparr>"
    by (simp add: withBalance_def ok_def)
  have c: "error (select_projects (withBalance 250)) = None"
    by (simp add: withBalance_def emptyStore_def ok_def)
  from loadData_existing_balance [OF a b, of initialState] c
  have "credits_inserts (fst (loadData (Some u1) (Some (withBalance 250)) initialState)) = [] \<and>
        creditsBadge (Some u1) (snd (loadData (Some u1) (Some (withBalance 250)) initialState)) = Some 250"
    by simp
  with a c show ?thesis by blast
qed




text \<open>
  C10. A navigation occurs in a run of \<open>handleGenerate\<close> only if the insert resolved
  without error; the insert is issued before it and never after it, and the navigation
  is the last effect of the run.
\<close>

theorem handleGenerate_insert_before_navigation:
  assumes "Navigate url \<in> set (fst (handleGenerate br user supabase s))"
  shows "\<exists>sb. supabase = Some sb \<and>
           error (insert_projects sb (uuidv4 br) (projectTitle (inputValue s))) = None \<and>
           precedes (Insert_projects (uuidv4 br) (projectTitle (inputValue s))) (Navigate url)
             (fst (handleGenerate br user supabase s)) \<and>
           \<not> precedes (Navigate url) (Insert_projects (uuidv4 br) (projectTitle (inputValue s)))
             (fst (handleGenerate br user supabase s)) \<and>
           last (fst (handleGenerate br user supabase s)) = Navigate url"
  using assms
  by (auto simp: handleGenerate_def Let_def precedes_def split: if_splits option.splits)

theorem handleGenerate_insert_before_navigation_witness:
  "Navigate (js ''/lovart/canvas?id=9b2f6c1e-3d4a-4f7b-8c21-5e6a7d8f9012&prompt=Design%20a%20logo'')
     \<in> set (fst (handleGenerate browser1 (Some u1) (Some emptyStore) (typed (js ''  Design a logo  '')))) \<and>
   error (insert_projects emptyStore (uuidv4 browser1) (js ''Design a logo'')) = None \<and>
   precedes (Insert_projects (uuidv4 browser1) (projectTitle (inputValue (typed (js ''  Design a logo  '')))))
     (Navigate (js ''/lovart/canvas?id=9b2f6c1e-3d4a-4f7b-8c21-5e6a7d8f9012&prompt=Design%20a%20logo''))
     (fst (handleGenerate browser1 (Some u1) (Some emptyStore) (typed (js ''  Design a logo  ''))))"
proof -
  have m: "Navigate (js ''/lovart/canvas?id=9b2f6c1e-3d4a-4f7b-8c21-5e6a7d8f9012&prompt=Design%20a%20logo'')
     \<in> set (fst (handleGenerate browser1 (Some u1) (Some emptyStore) (typed (js ''  Design a logo  ''))))"
    by (simp add: run_example)
  note e = emptyStore_answers(4) [of "uuidv4 browser1" "js ''Design a logo''"]
  from handleGenerate_insert_before_navigation [OF m] e m show ?thesis by blast
qed

end
